theory Spec2Isabelle
  imports Main "HOL-Library.Multiset" "HOL-Library.Char_ord" "HOL-Library.List_Lexorder"
    "HOL-Library.Finite_Map"
begin

section \<open>Data model\<close>

text \<open>
  The consumer command of the NATS command line client (\<^verbatim>\<open>cli/consumer_command.go\<close>).
  Go's \<^verbatim>\<open>int\<close> and \<^verbatim>\<open>time.Duration\<close> (nanoseconds) are modelled as \<open>int\<close>,
  \<^verbatim>\<open>uint\<close> and \<^verbatim>\<open>uint64\<close> as \<open>nat\<close>: the code only compares these values with
  constants, copies them, and once adds one to the length of a slice. Strings are byte
  lists, as Go strings are.
\<close>

type_synonym duration = int

definition second :: duration where
  "second = 1000000000"

definition minute :: duration where
  "minute = 60 * second"

datatype AckPolicy = AckNone | AckAll | AckExplicit

datatype ReplayPolicy = ReplayInstant | ReplayOriginal

datatype DeliverPolicy =
    DeliverAll
  | DeliverLast
  | DeliverNew
  | DeliverByStartSequence
  | DeliverByStartTime
  | DeliverLastPerSubject

text \<open>
  \<^verbatim>\<open>api.ConsumerConfig\<close> of the jsm.go library, with the fields this file reads or writes.
  The Go zero value is \<open>zeroConfig\<close> below. A Go slice is a list (a nil slice and an
  empty one are both \<open>[]\<close>), the optional start time is an \<open>option\<close>, the metadata
  map a finite map.
\<close>

record ConsumerConfig =
  Description :: string
  Durable :: string
  DeliverSubject :: string
  DeliverGroup :: string
  DeliverPolicy :: DeliverPolicy
  OptStartSeq :: nat
  OptStartTime :: "int option"
  AckPolicy :: AckPolicy
  AckWait :: duration
  MaxDeliver :: int
  BackOff :: "duration list"
  FilterSubject :: string
  FilterSubjects :: "string list"
  ReplayPolicy :: ReplayPolicy
  SampleFrequency :: string
  RateLimit :: nat
  MaxAckPending :: int
  Heartbeat :: duration
  FlowControl :: bool
  MaxWaiting :: int
  HeadersOnly :: bool
  MaxRequestBatch :: int
  MaxRequestExpires :: duration
  MaxRequestMaxBytes :: int
  InactiveThreshold :: duration
  Replicas :: int
  MemoryStorage :: bool
  Metadata :: "(string, string) fmap"

definition zeroConfig :: ConsumerConfig where
  "zeroConfig = \<lparr>
     Description = [], Durable = [], DeliverSubject = [], DeliverGroup = [],
     DeliverPolicy = DeliverAll, OptStartSeq = 0, OptStartTime = None,
     AckPolicy = AckNone, AckWait = 0, MaxDeliver = 0, BackOff = [],
     FilterSubject = [], FilterSubjects = [], ReplayPolicy = ReplayInstant,
     SampleFrequency = [], RateLimit = 0, MaxAckPending = 0, Heartbeat = 0,
     FlowControl = False, MaxWaiting = 0, HeadersOnly = False, MaxRequestBatch = 0,
     MaxRequestExpires = 0, MaxRequestMaxBytes = 0, InactiveThreshold = 0,
     Replicas = 0, MemoryStorage = False, Metadata = fmempty \<rparr>"

text \<open>
  \<^verbatim>\<open>consumerCmd\<close>: the flags of the command, as the struct has them (the connection
  handles are part of the environment below; the field \<^verbatim>\<open>term\<close> is called
  \<open>termFlag\<close>, since \<^verbatim>\<open>term\<close> is reserved).
\<close>

record consumerCmd =
  consumer :: string
  stream :: string
  force :: bool
  ack :: bool
  ackSetByUser :: bool
  termFlag :: bool
  raw :: bool
  destination :: string
  inputFile :: string
  acceptDefaults :: bool
  ackPolicy :: string
  ackWait :: duration
  bpsRateLimit :: nat
  delivery :: string
  ephemeral :: bool
  filterSubjects :: "string list"
  idleHeartbeat :: string
  maxAckPending :: int
  maxDeliver :: int
  maxWaiting :: int
  deliveryGroup :: string
  pull :: bool
  pullCount :: int
  replayPolicy :: string
  samplePct :: int
  startPolicy :: string
  description :: string
  inactiveThreshold :: duration
  maxPullExpire :: duration
  maxPullBytes :: int
  maxPullBatch :: int
  backoffMode :: string
  backoffSteps :: nat
  backoffMin :: duration
  backoffMax :: duration
  replicas :: int
  memory :: bool
  hdrsOnly :: bool
  hdrsOnlySet :: bool
  fc :: bool
  fcSet :: bool
  metadataIsSet :: bool
  metadata :: "(string, string) fmap"
  dryRun :: bool

text \<open>
  The values the flag declarations of \<^verbatim>\<open>configureConsumerCommand\<close> give when the caller
  sets no flag: \<^verbatim>\<open>--deliver-group\<close> defaults to \<^verbatim>\<open>_unset_\<close>, \<^verbatim>\<open>--max-pending\<close> and
  \<^verbatim>\<open>--sample\<close> to \<open>-1\<close>, \<^verbatim>\<open>--wait\<close> to \<open>-1s\<close>, \<^verbatim>\<open>--ack\<close> (of \<^verbatim>\<open>next\<close>) to true, the
  backoff steps, minimum and maximum to 10, 1m and 20m; every other flag to Go's zero.
\<close>

definition noFlags :: consumerCmd where
  "noFlags = \<lparr>
     consumer = [], stream = [], force = False, ack = True, ackSetByUser = False,
     termFlag = False, raw = False, destination = [], inputFile = [],
     acceptDefaults = False, ackPolicy = [], ackWait = - second, bpsRateLimit = 0,
     delivery = [], ephemeral = False, filterSubjects = [], idleHeartbeat = [],
     maxAckPending = - 1, maxDeliver = 0, maxWaiting = 0, deliveryGroup = ''_unset_'',
     pull = False, pullCount = 1, replayPolicy = [], samplePct = - 1, startPolicy = [],
     description = [], inactiveThreshold = 0, maxPullExpire = 0, maxPullBytes = 0,
     maxPullBatch = 0, backoffMode = [], backoffSteps = 10, backoffMin = minute,
     backoffMax = 20 * minute, replicas = 0, memory = False, hdrsOnly = False,
     hdrsOnlySet = False, fc = False, fcSet = False, metadataIsSet = False,
     metadata = fmempty, dryRun = False \<rparr>"

subsection \<open>Errors, prompts and observable events\<close>

text \<open>
  Every \<^verbatim>\<open>return fmt.Errorf\<close>, every \<^verbatim>\<open>fisk.Fatalf\<close> / \<^verbatim>\<open>fisk.FatalIfError\<close> (which end
  the process) and the one run-time panic of the file is a value of \<open>error\<close>. The first
  eight constructors are the kinds the specification names; the comment gives the message
  of the source.
\<close>

datatype prompt =
    AskConsumerName
  | AskDeliveryTarget
  | AskDeliveryGroup
  | AskStartPolicy
  | AskAckPolicy string
  | AskReplayPolicy
  | AskFilterSubject
  | AskMaxDeliver
  | AskMaxAckPending
  | AskIdleHeartbeat
  | AskFlowControl
  | AskHeadersOnly
  | AskAddBackoff
  | AskBackoffMode
  | AskBackoffMin
  | AskBackoffMax
  | AskBackoffSteps
  | AskReallyEdit

datatype error =
    InvalidName  \<comment> \<open>durable name can not contain '.', '*', '>'\<close>
  | InvalidPolicy  \<comment> \<open>required policy properties not supplied; pull consumers can only be
      explicit or all acknowledgement modes; invalid ack policy; backoff steps must be > 0\<close>
  | InvalidConfig  \<comment> \<open>sample percent is not between 0 and 100; rate limits are only possible
      on Push consumers\<close>
  | InvalidStartPolicy  \<comment> \<open>could not parse starting delta\<close>
  | IncompatibleEdit  \<comment> \<open>consumers with backoff policies do not support editing Ack Wait\<close>
  | ConflictingAction  \<comment> \<open>can not both Acknowledge and Terminate message\<close>
  | NotPullConsumer  \<comment> \<open>consumer is not a Pull consumer\<close>
  | UnsupportedMode  \<comment> \<open>invalid backoff mode\<close>
  | InvalidReplayPolicy  \<comment> \<open>invalid replay policy\<close>
  | InvalidDuration  \<comment> \<open>a failure of parseDurationString\<close>
  | LibraryError  \<comment> \<open>an error of jsm.LinearBackoffPeriods\<close>
  | BackoffFailed error  \<comment> \<open>could not determine backoff policy: ...\<close>
  | PromptFailed prompt  \<comment> \<open>a prompt that could not be answered\<close>
  | FileError  \<comment> \<open>the configuration file could not be read or decoded\<close>
  | NotDurable  \<comment> \<open>only durable consumers can be edited\<close>
  | LoadFailed  \<comment> \<open>could not load Consumer\<close>
  | SubmitFailed  \<comment> \<open>the remote manager refused the configuration\<close>
  | ExitStatus1  \<comment> \<open>os.Exit(1) of a dry run that found differences\<close>
  | IndexOutOfRange nat nat  \<comment> \<open>runtime panic: index out of range [i] with length n\<close>
  | SubscribeFailed  \<comment> \<open>subscribe failed\<close>
  | RequestFailed  \<comment> \<open>could not request next message\<close>
  | NoMessage  \<comment> \<open>no message received\<close>
  | MetadataError  \<comment> \<open>could not parse JetStream metadata\<close>
  | TermFailed  \<comment> \<open>could not Terminate message\<close>
  | AckFailed  \<comment> \<open>could not Acknowledge message\<close>

text \<open>
  What an operation does besides returning: the prompts it issues, what it prints, and its
  calls on the connection and the remote manager, in order.
\<close>

datatype shown =
    NoDifference  \<comment> \<open>No difference in configuration\<close>
  | Differences "string list"  \<comment> \<open>Differences (-old +new): ...\<close>
  | ShowConsumer
  | MessageInfo string  \<comment> \<open>the line with the subject (and metadata) of a message\<close>
  | MessageHeaders
  | MessageData string
  | TerminatedMessage
  | AcknowledgedMessage
  | AckFailure string

datatype event =
    Asked prompt
  | Printed shown
  | Submitted ConsumerConfig  \<comment> \<open>mgr.NewConsumerFromDefault\<close>
  | Subscribed  \<comment> \<open>nc.SubscribeSync on a fresh inbox\<close>
  | NextRequested string string  \<comment> \<open>mgr.NextMsgRequest stream consumer\<close>
  | Awaited  \<comment> \<open>sub.NextMsg\<close>
  | Loaded string string  \<comment> \<open>mgr.LoadConsumer stream consumer\<close>
  | Published string string  \<comment> \<open>nc.Publish subject data\<close>
  | Termed string  \<comment> \<open>msg.Term, on the reply subject\<close>
  | Flushed
  | Slept duration

subsection \<open>Library functions the file calls\<close>

text \<open>
  \<^verbatim>\<open>strings.ToLower\<close>. Its results are only compared with the ASCII words \<^verbatim>\<open>none\<close>,
  \<^verbatim>\<open>all\<close>, \<^verbatim>\<open>explicit\<close>, \<^verbatim>\<open>instant\<close> and \<^verbatim>\<open>original\<close>. Upper-case ASCII letters map to
  lower case; so do the two code points outside ASCII whose lower case is an ASCII letter,
  U+0130 (bytes C4 B0, to \<^verbatim>\<open>i\<close>) and U+212A (bytes E2 84 AA, to \<^verbatim>\<open>k\<close>). Every other byte
  sequence outside ASCII maps to bytes outside ASCII, which the model leaves in place.
\<close>

definition lowerChar :: "char \<Rightarrow> char" where
  "lowerChar c =
     (if CHR ''A'' \<le> c \<and> c \<le> CHR ''Z'' then char_of (of_char c + (32::nat)) else c)"

fun ToLower :: "string \<Rightarrow> string" where
  "ToLower [] = []"
| "ToLower (c # cs) =
     (if c = CHR 0xC4 \<and> take 1 cs = [CHR 0xB0] then CHR ''i'' # ToLower (drop 1 cs)
      else if c = CHR 0xE2 \<and> take 2 cs = [CHR 0x84, CHR 0xAA] then CHR ''k'' # ToLower (drop 2 cs)
      else lowerChar c # ToLower cs)"

text \<open>\<^verbatim>\<open>strconv.Itoa\<close>: the decimal digits of an integer.\<close>

fun digitsOf :: "nat \<Rightarrow> string" where
  "digitsOf n =
     (if n < 10 then [char_of (48 + n)] else digitsOf (n div 10) @ [char_of (48 + n mod 10)])"

definition Itoa :: "int \<Rightarrow> string" where
  "Itoa i = (if i < 0 then CHR ''-'' # digitsOf (nat (- i)) else digitsOf (nat i))"

text \<open>
  The functions of other packages whose results the command depends on are parameters of
  the model: \<^verbatim>\<open>jsm.LinearBackoffPeriods\<close>, \<^verbatim>\<open>parseDurationString\<close>, the clock,
  \<^verbatim>\<open>loadConfigFile\<close> (which reads a file and decodes it, also from the envelope of a
  consumer's info), and the plain reading and decoding of a file that \<^verbatim>\<open>editAction\<close>
  does itself; \<open>None\<close> is their failure.
\<close>

record extern =
  LinearBackoffPeriods :: "nat \<Rightarrow> duration \<Rightarrow> duration \<Rightarrow> error + duration list"
  parseDurationString :: "string \<Rightarrow> duration option"
  now :: int
  loadConfigFile :: "string \<Rightarrow> ConsumerConfig option"
  decodeConfigFile :: "string \<Rightarrow> ConsumerConfig option"

section \<open>Backoff policy generator\<close>

text \<open>
  \<^verbatim>\<open>backoffPolicy\<close>: mode \<^verbatim>\<open>none\<close> is the empty schedule; otherwise the mode, the steps,
  the minimum and the maximum must all be given; only \<^verbatim>\<open>linear\<close> is a known mode.
\<close>

definition backoffPolicy :: "extern \<Rightarrow> consumerCmd \<Rightarrow> error + duration list" where
  "backoffPolicy x c =
     (if backoffMode c = ''none'' then Inr []
      else if backoffMode c = [] \<or> backoffSteps c = 0 \<or> backoffMin c = 0 \<or> backoffMax c = 0
        then Inl InvalidPolicy
      else if backoffMode c = ''linear''
        then LinearBackoffPeriods x (backoffSteps c) (backoffMin c) (backoffMax c)
      else Inl UnsupportedMode)"

text \<open>
  Modelled from the spec: \<^verbatim>\<open>jsm.LinearBackoffPeriods\<close> is a function of the jsm.go
  library and not part of this repository. The specification describes its schedule as
  \<open>steps\<close> values evenly spaced from the minimum to the maximum, the first the minimum and
  the last the maximum. It only serves as a concrete instance of the parameter.
\<close>

definition linearPeriods :: "nat \<Rightarrow> duration \<Rightarrow> duration \<Rightarrow> error + duration list" where
  "linearPeriods steps mn mx =
     (if steps = 0 \<or> mn = 0 \<or> mx = 0 then Inl LibraryError
      else if steps = 1 then Inr [mn]
      else Inr (map (\<lambda>i. mn + (mx - mn) * int i div int (steps - 1)) [0..<steps]))"

definition stdExtern :: extern where
  "stdExtern = \<lparr> LinearBackoffPeriods = linearPeriods,
     parseDurationString = (\<lambda>s. None), now = 0,
     loadConfigFile = (\<lambda>f. None), decodeConfigFile = (\<lambda>f. None) \<rparr>"

section \<open>Edit reconciliation\<close>

text \<open>
  \<^verbatim>\<open>sampleFreqFromInt\<close> checks its argument and renders the field \<^verbatim>\<open>c.samplePct\<close>.
\<close>

definition sampleFreqFromInt :: "consumerCmd \<Rightarrow> int \<Rightarrow> error + string" where
  "sampleFreqFromInt c s =
     (if s > 100 \<or> s < 0 then Inl InvalidConfig
      else if s > 0 then Inr (Itoa (samplePct c))
      else Inr [])"

text \<open>Indexing a Go slice: out of range is a run-time panic.\<close>

definition index :: "'a list \<Rightarrow> nat \<Rightarrow> error + 'a" where
  "index xs i = (if i < length xs then Inr (xs ! i) else Inl (IndexOutOfRange i (length xs)))"

definition andThen :: "error + 'a \<Rightarrow> ('a \<Rightarrow> error + 'b) \<Rightarrow> error + 'b" where
  "andThen r f = (case r of Inl e \<Rightarrow> Inl e | Inr v \<Rightarrow> f v)"

text \<open>
  The overrides of \<^verbatim>\<open>editAction\<close> when no file is given, applied to a copy \<open>t\<close> of the
  live configuration, in the order of the source. Three of them can fail: the sample
  percentage, the backoff policy, and the single filter subject, which the source reads
  at index 1 of a slice of length 1.
\<close>

definition editOverrides :: "extern \<Rightarrow> consumerCmd \<Rightarrow> ConsumerConfig \<Rightarrow> error + ConsumerConfig" where
  "editOverrides x c t =
     (let n = t;
          n = (if description c \<noteq> [] then n\<lparr>Description := description c\<rparr> else n);
          n = (if maxDeliver c \<noteq> 0 then n\<lparr>MaxDeliver := maxDeliver c\<rparr> else n);
          n = (if maxAckPending c \<noteq> - 1 then n\<lparr>MaxAckPending := maxAckPending c\<rparr> else n);
          n = (if ackWait c \<noteq> - 1 * second then n\<lparr>AckWait := ackWait c\<rparr> else n);
          n = (if maxWaiting c \<noteq> 0 then n\<lparr>MaxWaiting := maxWaiting c\<rparr> else n)
      in andThen
           (if samplePct c \<noteq> - 1
            then andThen (sampleFreqFromInt c (samplePct c)) (\<lambda>s. Inr (n\<lparr>SampleFrequency := s\<rparr>))
            else Inr n)
       (\<lambda>n.
         let n = (if maxPullBatch c > 0 then n\<lparr>MaxRequestBatch := maxPullBatch c\<rparr> else n);
             n = (if maxPullExpire c > 0 then n\<lparr>MaxRequestExpires := maxPullExpire c\<rparr> else n);
             n = (if maxPullBytes c > 0 then n\<lparr>MaxRequestMaxBytes := maxPullBytes c\<rparr> else n)
         in andThen
              (if backoffMode c \<noteq> []
               then (case backoffPolicy x c of
                       Inl e \<Rightarrow> Inl (BackoffFailed e)
                     | Inr b \<Rightarrow> Inr (n\<lparr>BackOff := b\<rparr>))
               else Inr n)
       (\<lambda>n.
         let n = (if delivery c \<noteq> [] then n\<lparr>DeliverSubject := delivery c\<rparr> else n);
             n = (if hdrsOnlySet c then n\<lparr>HeadersOnly := hdrsOnly c\<rparr> else n)
         in andThen
              (if length (filterSubjects c) = 1
               then andThen (index (filterSubjects c) 1) (\<lambda>s. Inr (n\<lparr>FilterSubject := s\<rparr>))
               else if length (filterSubjects c) > 1
               then Inr (n\<lparr>FilterSubjects := filterSubjects c\<rparr>)
               else Inr n)
       (\<lambda>n.
         let n = (if replicas c > 0 then n\<lparr>Replicas := replicas c\<rparr> else n);
             n = (if metadataIsSet c then n\<lparr>Metadata := metadata c\<rparr> else n)
         in Inr n))))"

text \<open>
  The comparison of \<^verbatim>\<open>cmp.Diff\<close> with the \<^verbatim>\<open>Sort\<close> transformer: every value of type
  \<^verbatim>\<open>[]string\<close> (in this record only \<^verbatim>\<open>FilterSubjects\<close>) is copied and sorted with
  \<^verbatim>\<open>sort.Strings\<close> before it is compared; every other field is compared as it is. The
  report is modelled by the names of the fields that differ, so that the report is empty
  exactly when \<^verbatim>\<open>cmp.Diff\<close> returns the empty string.
\<close>

definition sorter :: "string list \<Rightarrow> string list" where
  "sorter xs = sort xs"

definition differs :: "string \<Rightarrow> 'a \<Rightarrow> 'a \<Rightarrow> string list" where
  "differs name u v = (if u = v then [] else [name])"

definition Diff :: "ConsumerConfig \<Rightarrow> ConsumerConfig \<Rightarrow> string list" where
  "Diff a b =
     differs ''Description'' (Description a) (Description b)
   @ differs ''Durable'' (Durable a) (Durable b)
   @ differs ''DeliverSubject'' (DeliverSubject a) (DeliverSubject b)
   @ differs ''DeliverGroup'' (DeliverGroup a) (DeliverGroup b)
   @ differs ''DeliverPolicy'' (DeliverPolicy a) (DeliverPolicy b)
   @ differs ''OptStartSeq'' (OptStartSeq a) (OptStartSeq b)
   @ differs ''OptStartTime'' (OptStartTime a) (OptStartTime b)
   @ differs ''AckPolicy'' (AckPolicy a) (AckPolicy b)
   @ differs ''AckWait'' (AckWait a) (AckWait b)
   @ differs ''MaxDeliver'' (MaxDeliver a) (MaxDeliver b)
   @ differs ''BackOff'' (BackOff a) (BackOff b)
   @ differs ''FilterSubject'' (FilterSubject a) (FilterSubject b)
   @ differs ''FilterSubjects'' (sorter (FilterSubjects a)) (sorter (FilterSubjects b))
   @ differs ''ReplayPolicy'' (ReplayPolicy a) (ReplayPolicy b)
   @ differs ''SampleFrequency'' (SampleFrequency a) (SampleFrequency b)
   @ differs ''RateLimit'' (RateLimit a) (RateLimit b)
   @ differs ''MaxAckPending'' (MaxAckPending a) (MaxAckPending b)
   @ differs ''Heartbeat'' (Heartbeat a) (Heartbeat b)
   @ differs ''FlowControl'' (FlowControl a) (FlowControl b)
   @ differs ''MaxWaiting'' (MaxWaiting a) (MaxWaiting b)
   @ differs ''HeadersOnly'' (HeadersOnly a) (HeadersOnly b)
   @ differs ''MaxRequestBatch'' (MaxRequestBatch a) (MaxRequestBatch b)
   @ differs ''MaxRequestExpires'' (MaxRequestExpires a) (MaxRequestExpires b)
   @ differs ''MaxRequestMaxBytes'' (MaxRequestMaxBytes a) (MaxRequestMaxBytes b)
   @ differs ''InactiveThreshold'' (InactiveThreshold a) (InactiveThreshold b)
   @ differs ''Replicas'' (Replicas a) (Replicas b)
   @ differs ''MemoryStorage'' (MemoryStorage a) (MemoryStorage b)
   @ differs ''Metadata'' (Metadata a) (Metadata b)"

text \<open>
  What \<^verbatim>\<open>editAction\<close> meets outside the process: the consumer the manager loads (its live
  configuration; \<open>None\<close> when it cannot be loaded), the answer to the confirmation prompt
  (\<open>None\<close> when the prompt fails), and whether the manager accepts the new configuration.
\<close>

record editEnv =
  selectedConsumer :: "ConsumerConfig option"
  confirmation :: "bool option"
  createSucceeds :: bool

text \<open>
  \<^verbatim>\<open>editAction\<close>. The new configuration \<open>newConfig\<close> is read from the file when one is
  given, and is the live one with the overrides otherwise. The JSON round trip of the
  source is a deep copy, modelled as the value itself. \<^verbatim>\<open>IsDurable\<close> of the library is a
  non-empty durable name.
\<close>

definition newConfig :: "extern \<Rightarrow> consumerCmd \<Rightarrow> ConsumerConfig \<Rightarrow> error + ConsumerConfig" where
  "newConfig x c t =
     (if inputFile c \<noteq> []
      then (case decodeConfigFile x (inputFile c) of
              None \<Rightarrow> Inl FileError
            | Some f \<Rightarrow> Inr f)
      else editOverrides x c t)"

definition editAction :: "extern \<Rightarrow> editEnv \<Rightarrow> consumerCmd \<Rightarrow> event list \<times> (error + unit)" where
  "editAction x env c =
     (case selectedConsumer env of
        None \<Rightarrow> ([], Inl LoadFailed)
      | Some t \<Rightarrow>
          if Durable t = [] then ([], Inl NotDurable)
          else
            (case newConfig x c t of
               Inl e \<Rightarrow> ([], Inl e)
             | Inr ncfg \<Rightarrow>
                 if length (BackOff ncfg) > 0 \<and> AckWait ncfg \<noteq> AckWait t
                 then ([], Inl IncompatibleEdit)
                 else
                   (let diff = Diff t ncfg in
                    if diff = []
                    then ((if \<not> dryRun c then [Printed NoDifference] else []), Inr ())
                    else if dryRun c
                    then ([Printed (Differences diff)], Inl ExitStatus1)
                    else
                      (case (if \<not> force c then confirmation env else Some True) of
                         None \<Rightarrow>
                           ([Printed (Differences diff), Asked AskReallyEdit],
                            Inl (PromptFailed AskReallyEdit))
                       | Some ok \<Rightarrow>
                           (let asked = (if \<not> force c then [Asked AskReallyEdit] else []) in
                            if \<not> ok then (Printed (Differences diff) # asked, Inr ())
                            else if \<not> createSucceeds env
                            then (Printed (Differences diff) # asked @ [Submitted ncfg],
                                  Inl SubmitFailed)
                            else (Printed (Differences diff) # asked
                                    @ [Submitted ncfg, Printed ShowConsumer],
                                  Inr ()))))))"

section \<open>Operations with effects\<close>

text \<open>
  An operation with effects returns the events it caused, in order, and its result: an
  error (with the events up to it) or a value. \<open>seq\<close> runs a second operation after a
  first one that succeeded.
\<close>

type_synonym 'a act = "event list \<times> (error + 'a)"

definition ok :: "'a \<Rightarrow> 'a act" where
  "ok v = ([], Inr v)"

definition fail :: "error \<Rightarrow> 'a act" where
  "fail e = ([], Inl e)"

definition emit :: "event list \<Rightarrow> unit act" where
  "emit es = (es, Inr ())"

definition seq :: "'a act \<Rightarrow> ('a \<Rightarrow> 'b act) \<Rightarrow> 'b act" where
  "seq m f =
     (case m of
        (es, Inl e) \<Rightarrow> (es, Inl e)
      | (es, Inr v) \<Rightarrow> (case f v of (es', r) \<Rightarrow> (es @ es', r)))"

definition lift :: "error + 'a \<Rightarrow> 'a act" where
  "lift r = ([], r)"

section \<open>Configuration derivation\<close>

text \<open>
  The answers the user gives to the prompts of \<^verbatim>\<open>prepareConfig\<close> and
  \<^verbatim>\<open>askBackoffPolicy\<close>; \<open>None\<close> is a prompt that fails (\<^verbatim>\<open>askOne\<close> returns an error). A
  prompt with the validator \<^verbatim>\<open>survey.Required\<close> does not accept an empty answer, so an
  empty answer there is a prompt that fails.
\<close>

record answers =
  ansConsumerName :: "string option"
  ansDeliveryTarget :: "string option"
  ansDeliveryGroup :: "string option"
  ansStartPolicy :: "string option"
  ansAckPolicy :: "string option"
  ansReplayPolicy :: "string option"
  ansFilterSubject :: "string option"
  ansMaxDeliver :: "int option"
  ansMaxAckPending :: "int option"
  ansIdleHeartbeat :: "string option"
  ansFlowControl :: "bool option"
  ansHeadersOnly :: "bool option"
  ansAddBackoff :: "bool option"
  ansBackoffMode :: "string option"
  ansBackoffMin :: "string option"
  ansBackoffMax :: "string option"
  ansBackoffSteps :: "int option"

definition askOne :: "prompt \<Rightarrow> 'a option \<Rightarrow> 'a act" where
  "askOne p answer =
     (case answer of
        None \<Rightarrow> ([Asked p], Inl (PromptFailed p))
      | Some v \<Rightarrow> ([Asked p], Inr v))"

definition required :: "string option \<Rightarrow> string option" where
  "required answer =
     (case answer of None \<Rightarrow> None | Some s \<Rightarrow> if s = [] then None else Some s)"

definition replayPolicyFromString :: "string \<Rightarrow> error + ReplayPolicy" where
  "replayPolicyFromString p =
     (let l = ToLower p in
      if l = ''instant'' then Inr ReplayInstant
      else if l = ''original'' then Inr ReplayOriginal
      else Inl InvalidReplayPolicy)"

definition ackPolicyFromString :: "string \<Rightarrow> error + AckPolicy" where
  "ackPolicyFromString p =
     (let l = ToLower p in
      if l = ''none'' then Inr AckNone
      else if l = ''all'' then Inr AckAll
      else if l = ''explicit'' then Inr AckExplicit
      else Inl InvalidPolicy)"

definition defaultConsumer :: ConsumerConfig where
  "defaultConsumer = zeroConfig\<lparr>AckPolicy := AckExplicit, ReplayPolicy := ReplayInstant\<rparr>"

text \<open>
  \<^verbatim>\<open>setStartPolicy\<close>. A policy that matches \<^verbatim>\<open>^\d+$\<close> is a sequence number: \<^verbatim>\<open>strconv.Atoi\<close>
  yields the largest \<^verbatim>\<open>int\<close> for a number out of range (its error is dropped). Anything
  else is a duration before now.
\<close>

definition isDigit :: "char \<Rightarrow> bool" where
  "isDigit ch = (CHR ''0'' \<le> ch \<and> ch \<le> CHR ''9'')"

definition allDigits :: "string \<Rightarrow> bool" where
  "allDigits s = (s \<noteq> [] \<and> list_all isDigit s)"

definition Atoi :: "string \<Rightarrow> int" where
  "Atoi s = min (foldl (\<lambda>n ch. 10 * n + (of_char ch - 48)) 0 s) (2 ^ 63 - 1)"

definition setStartPolicy :: "extern \<Rightarrow> ConsumerConfig \<Rightarrow> string \<Rightarrow> error + ConsumerConfig" where
  "setStartPolicy x cfg policy =
     (if policy = [] then Inr cfg
      else if policy = ''all'' then Inr (cfg\<lparr>DeliverPolicy := DeliverAll\<rparr>)
      else if policy = ''last'' then Inr (cfg\<lparr>DeliverPolicy := DeliverLast\<rparr>)
      else if policy = ''new'' \<or> policy = ''next'' then Inr (cfg\<lparr>DeliverPolicy := DeliverNew\<rparr>)
      else if policy = ''subject'' \<or> policy = ''last_per_subject''
        then Inr (cfg\<lparr>DeliverPolicy := DeliverLastPerSubject\<rparr>)
      else if allDigits policy
        then Inr (cfg\<lparr>DeliverPolicy := DeliverByStartSequence, OptStartSeq := nat (Atoi policy)\<rparr>)
      else (case parseDurationString x policy of
              None \<Rightarrow> Inl InvalidStartPolicy
            | Some d \<Rightarrow>
                Inr (cfg\<lparr>DeliverPolicy := DeliverByStartTime, OptStartTime := Some (now x - d)\<rparr>)))"

text \<open>
  \<^verbatim>\<open>prepareConfig\<close> threads the command \<open>c\<close> (whose fields the prompts and the defaults
  block fill in) and the configuration \<open>cfg\<close> under construction. The model follows the
  source block by block; each block is a definition of its own, in the order of the source.
\<close>

type_synonym build = "consumerCmd \<times> ConsumerConfig"

definition reservedChar :: "char \<Rightarrow> bool" where
  "reservedChar ch = (ch = CHR ''.'' \<or> ch = CHR ''*'' \<or> ch = CHR ''>'')"

definition durableName :: "answers \<Rightarrow> build \<Rightarrow> build act" where
  "durableName a s =
     (case s of (c, cfg) \<Rightarrow>
        seq (if consumer c = [] \<and> \<not> ephemeral c
             then seq (askOne AskConsumerName (required (ansConsumerName a)))
                    (\<lambda>v. ok (c\<lparr>consumer := v\<rparr>))
             else ok c)
        (\<lambda>c. let cfg = cfg\<lparr>Durable := consumer c\<rparr> in
           if list_ex reservedChar (Durable cfg) then fail InvalidName else ok (c, cfg)))"

definition deliveryTarget :: "answers \<Rightarrow> build \<Rightarrow> build act" where
  "deliveryTarget a s =
     (case s of (c, cfg) \<Rightarrow>
        seq (if \<not> pull c \<and> delivery c = []
             then seq (askOne AskDeliveryTarget (ansDeliveryTarget a))
                    (\<lambda>v. ok (c\<lparr>delivery := v\<rparr>))
             else ok c)
        (\<lambda>c. ok (c, cfg\<lparr>DeliverSubject := delivery c\<rparr>)))"

definition applyDefaults :: "build \<Rightarrow> build" where
  "applyDefaults s =
     (case s of (c, cfg) \<Rightarrow>
        if acceptDefaults c then
          (let c = (if deliveryGroup c = ''_unset_'' then c\<lparr>deliveryGroup := []\<rparr> else c);
               c = (if startPolicy c = [] then c\<lparr>startPolicy := ''all''\<rparr> else c);
               c = (if ackPolicy c = []
                    then c\<lparr>ackPolicy :=
                           (if pull c \<or> delivery c = [] then ''explicit'' else ''none'')\<rparr>
                    else c);
               c = (if maxDeliver c = 0 then c\<lparr>maxDeliver := - 1\<rparr> else c);
               c = (if maxAckPending c = - 1 then c\<lparr>maxAckPending := 0\<rparr> else c);
               c = (if replayPolicy c = [] then c\<lparr>replayPolicy := ''instant''\<rparr> else c);
               c = (if idleHeartbeat c = [] then c\<lparr>idleHeartbeat := ''-1''\<rparr> else c);
               c = (if \<not> hdrsOnlySet c then c\<lparr>hdrsOnlySet := True\<rparr> else c);
               c = (if DeliverSubject cfg \<noteq> []
                    then c\<lparr>replayPolicy := ''instant'', fcSet := True\<rparr>
                    else c)
           in (c, cfg))
        else (c, cfg))"

definition deliveryQueueGroup :: "answers \<Rightarrow> build \<Rightarrow> build act" where
  "deliveryQueueGroup a s =
     (case s of (c, cfg) \<Rightarrow>
        seq (if DeliverSubject cfg \<noteq> [] \<and> deliveryGroup c = ''_unset_''
             then seq (askOne AskDeliveryGroup (ansDeliveryGroup a))
                    (\<lambda>v. ok (c\<lparr>deliveryGroup := v\<rparr>))
             else ok c)
        (\<lambda>c. let cfg = cfg\<lparr>DeliverGroup := deliveryGroup c\<rparr>;
                 cfg = (if DeliverGroup cfg = ''_unset_'' then cfg\<lparr>DeliverGroup := []\<rparr> else cfg)
             in ok (c, cfg)))"

definition startPolicyBlock :: "extern \<Rightarrow> answers \<Rightarrow> build \<Rightarrow> build act" where
  "startPolicyBlock x a s =
     (case s of (c, cfg) \<Rightarrow>
        seq (if startPolicy c = []
             then seq (askOne AskStartPolicy (required (ansStartPolicy a)))
                    (\<lambda>v. ok (c\<lparr>startPolicy := v\<rparr>))
             else ok c)
        (\<lambda>c. seq (lift (setStartPolicy x cfg (startPolicy c))) (\<lambda>cfg. ok (c, cfg))))"

definition ackPolicyBlock :: "answers \<Rightarrow> build \<Rightarrow> build act" where
  "ackPolicyBlock a s =
     (case s of (c, cfg) \<Rightarrow>
        seq (if ackPolicy c = []
             then seq (askOne (AskAckPolicy (if delivery c = [] then ''explicit'' else ''none''))
                         (ansAckPolicy a))
                    (\<lambda>v. ok (c\<lparr>ackPolicy := v\<rparr>))
             else ok c)
        (\<lambda>c.
        seq (if replayPolicy c = []
             then seq (askOne AskReplayPolicy (ansReplayPolicy a))
                    (\<lambda>v. ok (c\<lparr>replayPolicy := v\<rparr>))
             else ok c)
        (\<lambda>c.
        seq (lift (ackPolicyFromString (ackPolicy c)))
        (\<lambda>p. let cfg = cfg\<lparr>AckPolicy := p\<rparr> in
           if AckPolicy cfg = AckNone \<and> DeliverSubject cfg = [] then fail InvalidPolicy
           else
             (let cfg = (if AckPolicy cfg = AckNone then cfg\<lparr>MaxDeliver := - 1\<rparr> else cfg);
                  cfg = (if ackWait c > 0 then cfg\<lparr>AckWait := ackWait c\<rparr> else cfg)
              in if samplePct c > 0
                 then (if samplePct c > 100 then fail InvalidConfig
                       else ok (c, cfg\<lparr>SampleFrequency := Itoa (samplePct c)\<rparr>))
                 else ok (c, cfg))))))"

definition replayPolicyBlock :: "answers \<Rightarrow> build \<Rightarrow> build act" where
  "replayPolicyBlock a s =
     (case s of (c, cfg) \<Rightarrow>
        seq (if DeliverSubject cfg \<noteq> [] \<and> replayPolicy c = []
             then seq (askOne AskReplayPolicy (ansReplayPolicy a))
                    (\<lambda>mode. ok (c\<lparr>replayPolicy := mode\<rparr>))
             else ok c)
        (\<lambda>c. if replayPolicy c \<noteq> []
             then seq (lift (replayPolicyFromString (replayPolicy c)))
                    (\<lambda>p. ok (c, cfg\<lparr>ReplayPolicy := p\<rparr>))
             else ok (c, cfg)))"

definition filterBlock :: "answers \<Rightarrow> build \<Rightarrow> build act" where
  "filterBlock a s =
     (case s of (c, cfg) \<Rightarrow>
        seq (if length (filterSubjects c) = 0 \<and> \<not> acceptDefaults c
             then seq (askOne AskFilterSubject (ansFilterSubject a))
                    (\<lambda>sub. ok (c\<lparr>filterSubjects := [sub]\<rparr>))
             else ok c)
        (\<lambda>c. let cfg = (if length (filterSubjects c) = 1
                         then cfg\<lparr>FilterSubject := filterSubjects c ! 0\<rparr>
                         else if length (filterSubjects c) > 1
                         then cfg\<lparr>FilterSubjects := filterSubjects c\<rparr>
                         else cfg);
                 cfg = (if FilterSubject cfg = [] \<and> length (filterSubjects c) = 0
                           \<and> DeliverPolicy cfg = DeliverLastPerSubject
                        then cfg\<lparr>FilterSubject := ''>''\<rparr>
                        else cfg)
             in ok (c, cfg)))"

definition deliveryLimits :: "answers \<Rightarrow> build \<Rightarrow> build act" where
  "deliveryLimits a s =
     (case s of (c, cfg) \<Rightarrow>
        seq (if maxDeliver c = 0 \<and> AckPolicy cfg \<noteq> AckNone
             then seq (askOne AskMaxDeliver (ansMaxDeliver a)) (\<lambda>v. ok (c\<lparr>maxDeliver := v\<rparr>))
             else ok c)
        (\<lambda>c.
        seq (if maxAckPending c = - 1 \<and> AckPolicy cfg \<noteq> AckNone
             then seq (askOne AskMaxAckPending (ansMaxAckPending a))
                    (\<lambda>v. ok (c\<lparr>maxAckPending := v\<rparr>))
             else ok c)
        (\<lambda>c. ok (c, cfg))))"

definition parseHeartbeat :: "extern \<Rightarrow> string \<Rightarrow> duration act" where
  "parseHeartbeat x s =
     (case parseDurationString x s of None \<Rightarrow> fail InvalidDuration | Some d \<Rightarrow> ok d)"

definition pushOptions :: "extern \<Rightarrow> answers \<Rightarrow> build \<Rightarrow> build act" where
  "pushOptions x a s =
     (case s of (c, cfg) \<Rightarrow>
        seq (if DeliverSubject cfg \<noteq> []
             then (if idleHeartbeat c = ''-1'' then ok (cfg\<lparr>Heartbeat := 0\<rparr>)
                   else if idleHeartbeat c \<noteq> []
                   then seq (parseHeartbeat x (idleHeartbeat c)) (\<lambda>d. ok (cfg\<lparr>Heartbeat := d\<rparr>))
                   else seq (askOne AskIdleHeartbeat (ansIdleHeartbeat a))
                          (\<lambda>idle. seq (parseHeartbeat x idle) (\<lambda>d. ok (cfg\<lparr>Heartbeat := d\<rparr>))))
             else ok cfg)
        (\<lambda>cfg.
        seq (if DeliverSubject cfg \<noteq> []
             then seq (if \<not> fcSet c
                       then seq (askOne AskFlowControl (ansFlowControl a)) (\<lambda>v. ok (c\<lparr>fc := v\<rparr>))
                       else ok c)
                    (\<lambda>c. ok (c, cfg\<lparr>FlowControl := fc c\<rparr>))
             else ok (c, cfg))
        (\<lambda>s. case s of (c, cfg) \<Rightarrow>
        seq (if \<not> hdrsOnlySet c
             then seq (askOne AskHeadersOnly (ansHeadersOnly a)) (\<lambda>v. ok (c\<lparr>hdrsOnly := v\<rparr>))
             else ok c)
        (\<lambda>c. ok (c, cfg\<lparr>HeadersOnly := hdrsOnly c\<rparr>)))))"

definition askBackoffPolicy :: "extern \<Rightarrow> answers \<Rightarrow> consumerCmd \<Rightarrow> consumerCmd act" where
  "askBackoffPolicy x a c =
     seq (askOne AskAddBackoff (ansAddBackoff a))
     (\<lambda>yes.
        if yes then
          seq (askOne AskBackoffMode (ansBackoffMode a))
          (\<lambda>m. let c = c\<lparr>backoffMode := m\<rparr> in
             if backoffMode c = ''none'' then ok c
             else
               seq (askOne AskBackoffMin (ansBackoffMin a))
               (\<lambda>d. case parseDurationString x d of
                      None \<Rightarrow> fail InvalidDuration
                    | Some mn \<Rightarrow>
                        (let c = c\<lparr>backoffMin := mn\<rparr> in
                         seq (askOne AskBackoffMax (ansBackoffMax a))
                         (\<lambda>d. case parseDurationString x d of
                                None \<Rightarrow> fail InvalidDuration
                              | Some mx \<Rightarrow>
                                  (let c = c\<lparr>backoffMax := mx\<rparr> in
                                   seq (askOne AskBackoffSteps (ansBackoffSteps a))
                                   (\<lambda>steps. if steps < 1 then fail InvalidPolicy
                                             else ok (c\<lparr>backoffSteps := nat steps\<rparr>)))))))
        else ok c)"

definition backoffBlock :: "extern \<Rightarrow> answers \<Rightarrow> build \<Rightarrow> build act" where
  "backoffBlock x a s =
     (case s of (c, cfg) \<Rightarrow>
        seq (if \<not> acceptDefaults c \<and> backoffMode c = [] then askBackoffPolicy x a c else ok c)
        (\<lambda>c. if backoffMode c \<noteq> []
             then (case backoffPolicy x c of
                     Inl e \<Rightarrow> fail (BackoffFailed e)
                   | Inr b \<Rightarrow>
                       (let cfg = cfg\<lparr>BackOff := b\<rparr>;
                            c = (if maxDeliver c = - 1 \<and> length (BackOff cfg) > 0
                                 then c\<lparr>maxDeliver := int (length (BackOff cfg)) + 1\<rparr>
                                 else c)
                        in ok (c, cfg)))
             else ok (c, cfg)))"

definition finalBlock :: "build \<Rightarrow> ConsumerConfig act" where
  "finalBlock s =
     (case s of (c, cfg) \<Rightarrow>
        let c = (if maxAckPending c = - 1 then c\<lparr>maxAckPending := 0\<rparr> else c);
            cfg = cfg\<lparr>MaxAckPending := maxAckPending c\<rparr>;
            cfg = cfg\<lparr>InactiveThreshold := inactiveThreshold c\<rparr>;
            cfg = (if maxPullBatch c > 0 then cfg\<lparr>MaxRequestBatch := maxPullBatch c\<rparr> else cfg);
            cfg = (if maxPullExpire c > 0 then cfg\<lparr>MaxRequestExpires := maxPullExpire c\<rparr> else cfg);
            cfg = (if maxPullBytes c > 0 then cfg\<lparr>MaxRequestMaxBytes := maxPullBytes c\<rparr> else cfg);
            cfg = (if DeliverSubject cfg = [] then cfg\<lparr>MaxWaiting := maxWaiting c\<rparr> else cfg);
            cfg = (if maxDeliver c \<noteq> 0 \<and> AckPolicy cfg \<noteq> AckNone
                   then cfg\<lparr>MaxDeliver := maxDeliver c\<rparr> else cfg)
        in if bpsRateLimit c > 0 \<and> DeliverSubject cfg = [] then fail InvalidConfig
           else
             (let cfg = cfg\<lparr>RateLimit := bpsRateLimit c\<rparr>;
                  cfg = cfg\<lparr>Replicas := replicas c\<rparr>;
                  cfg = cfg\<lparr>MemoryStorage := memory c\<rparr>;
                  cfg = (if metadataIsSet c then cfg\<lparr>Metadata := metadata c\<rparr> else cfg)
              in ok cfg))"

text \<open>
  The branch of \<^verbatim>\<open>prepareConfig\<close> for a configuration file: the file's configuration is
  returned as it is, but for the durable name and the delivery target of the command line.
\<close>

definition fromFile :: "extern \<Rightarrow> consumerCmd \<Rightarrow> ConsumerConfig act" where
  "fromFile x c =
     (case loadConfigFile x (inputFile c) of
        None \<Rightarrow> fail FileError
      | Some cfg \<Rightarrow>
          (let cfg = (if Durable cfg \<noteq> [] \<and> consumer c \<noteq> [] \<and> Durable cfg \<noteq> consumer c
                      then cfg\<lparr>Durable := consumer c\<rparr> else cfg);
               cfg = (if DeliverSubject cfg \<noteq> [] \<and> delivery c \<noteq> []
                      then cfg\<lparr>DeliverSubject := delivery c\<rparr> else cfg)
           in ok cfg))"

definition prepareConfig :: "extern \<Rightarrow> answers \<Rightarrow> consumerCmd \<Rightarrow> ConsumerConfig act" where
  "prepareConfig x a c =
     (let cfg = defaultConsumer\<lparr>Description := description c\<rparr> in
      if inputFile c \<noteq> [] then fromFile x c
      else
        seq (durableName a (c, cfg)) (\<lambda>s.
        seq (deliveryTarget a s) (\<lambda>s.
        seq (deliveryQueueGroup a (applyDefaults s)) (\<lambda>s.
        seq (startPolicyBlock x a s) (\<lambda>s.
        seq (ackPolicyBlock a s) (\<lambda>s.
        seq (replayPolicyBlock a s) (\<lambda>s.
        seq (filterBlock a s) (\<lambda>s.
        seq (deliveryLimits a s) (\<lambda>s.
        seq (pushOptions x a s) (\<lambda>s.
        seq (backoffBlock x a s) finalBlock))))))))))"

section \<open>Copy\<close>

text \<open>
  The overrides of \<^verbatim>\<open>cpAction\<close>, applied to the configuration of the source consumer. A
  single filter subject is read at index 0.
\<close>

definition cpOverrides :: "extern \<Rightarrow> consumerCmd \<Rightarrow> ConsumerConfig \<Rightarrow> error + ConsumerConfig" where
  "cpOverrides x c source =
     (let cfg = source;
          cfg = (if ackWait c > 0 then cfg\<lparr>AckWait := ackWait c\<rparr> else cfg)
      in andThen
           (if samplePct c \<noteq> - 1
            then andThen (sampleFreqFromInt c (samplePct c)) (\<lambda>s. Inr (cfg\<lparr>SampleFrequency := s\<rparr>))
            else Inr cfg)
       (\<lambda>cfg. andThen
           (if startPolicy c \<noteq> [] then setStartPolicy x cfg (startPolicy c) else Inr cfg)
       (\<lambda>cfg.
         let cfg = (if ephemeral c then cfg\<lparr>Durable := []\<rparr> else cfg\<lparr>Durable := destination c\<rparr>);
             cfg = (if delivery c \<noteq> [] then cfg\<lparr>DeliverSubject := delivery c\<rparr> else cfg);
             cfg = (if pull c then cfg\<lparr>DeliverSubject := [], MaxWaiting := maxWaiting c\<rparr> else cfg)
         in andThen
              (if ackPolicy c \<noteq> []
               then andThen (ackPolicyFromString (ackPolicy c)) (\<lambda>p. Inr (cfg\<lparr>AckPolicy := p\<rparr>))
               else Inr cfg)
       (\<lambda>cfg. andThen
           (if length (filterSubjects c) = 1
            then andThen (index (filterSubjects c) 0) (\<lambda>s. Inr (cfg\<lparr>FilterSubject := s\<rparr>))
            else if length (filterSubjects c) > 1
            then Inr (cfg\<lparr>FilterSubjects := filterSubjects c\<rparr>)
            else Inr cfg)
       (\<lambda>cfg. andThen
           (if replayPolicy c \<noteq> []
            then andThen (replayPolicyFromString (replayPolicy c))
                   (\<lambda>p. Inr (cfg\<lparr>ReplayPolicy := p\<rparr>))
            else Inr cfg)
       (\<lambda>cfg.
         let cfg = (if maxDeliver c \<noteq> 0 then cfg\<lparr>MaxDeliver := maxDeliver c\<rparr> else cfg);
             cfg = (if bpsRateLimit c \<noteq> 0 then cfg\<lparr>RateLimit := bpsRateLimit c\<rparr> else cfg);
             cfg = (if maxAckPending c \<noteq> - 1 then cfg\<lparr>MaxAckPending := maxAckPending c\<rparr> else cfg)
         in andThen
              (if idleHeartbeat c \<noteq> [] \<and> idleHeartbeat c \<noteq> ''-''
               then (case parseDurationString x (idleHeartbeat c) of
                       None \<Rightarrow> Inl InvalidDuration
                     | Some hb \<Rightarrow> Inr (cfg\<lparr>Heartbeat := hb\<rparr>))
               else Inr cfg)
       (\<lambda>cfg.
         let cfg = (if description c \<noteq> [] then cfg\<lparr>Description := description c\<rparr> else cfg);
             cfg = (if fcSet c then cfg\<lparr>FlowControl := fc c\<rparr> else cfg);
             cfg = (if DeliverSubject cfg = []
                    then cfg\<lparr>Heartbeat := 0, FlowControl := False\<rparr> else cfg);
             cfg = (if deliveryGroup c \<noteq> ''_unset_''
                    then cfg\<lparr>DeliverGroup := deliveryGroup c\<rparr> else cfg);
             cfg = (if delivery c = [] then cfg\<lparr>DeliverGroup := []\<rparr> else cfg);
             cfg = (if deliveryGroup c = ''_unset_'' then cfg\<lparr>DeliverGroup := []\<rparr> else cfg);
             cfg = (if inactiveThreshold c > 0
                    then cfg\<lparr>InactiveThreshold := inactiveThreshold c\<rparr> else cfg);
             cfg = (if maxPullExpire c > 0 then cfg\<lparr>MaxRequestExpires := maxPullExpire c\<rparr> else cfg);
             cfg = (if maxPullBatch c > 0 then cfg\<lparr>MaxRequestBatch := maxPullBatch c\<rparr> else cfg);
             cfg = (if maxPullBytes c > 0 then cfg\<lparr>MaxRequestMaxBytes := maxPullBytes c\<rparr> else cfg)
         in andThen
              (if backoffMode c \<noteq> []
               then (case backoffPolicy x c of
                       Inl e \<Rightarrow> Inl (BackoffFailed e)
                     | Inr b \<Rightarrow> Inr (cfg\<lparr>BackOff := b\<rparr>))
               else Inr cfg)
       (\<lambda>cfg. Inr (if hdrsOnlySet c then cfg\<lparr>HeadersOnly := hdrsOnly c\<rparr> else cfg)))))))))"

section \<open>Delivery protocol handler\<close>

text \<open>
  A message of the transport (\<^verbatim>\<open>nats.Msg\<close>). Its header maps a key to a list of values;
  \<^verbatim>\<open>Header.Get\<close> is the first value of a key, or the empty string.
\<close>

record Msg =
  Subject :: string
  Reply :: string
  Data :: string
  Header :: "(string \<times> string list) list"

definition HeaderGet :: "(string \<times> string list) list \<Rightarrow> string \<Rightarrow> string" where
  "HeaderGet h key = (case map_of h key of Some (v # vs) \<Rightarrow> v | _ \<Rightarrow> [])"

text \<open>
  What the handler meets outside the process: whether the subscription and the request
  for the next message succeed, the message that arrives within the timeout (\<open>None\<close> when
  none does), whether the consumer the manager loads is a pull consumer (\<open>None\<close> when it
  cannot be loaded), the decoding of a message's metadata by \<^verbatim>\<open>jsm.ParseJSMsgMetadata\<close>
  (the rendered line, \<open>None\<close> when it fails), whether publishing succeeds, and the number
  the random source draws.
\<close>

record natsEnv =
  subscribeSucceeds :: bool
  requestSucceeds :: bool
  nextMsg :: "Msg option"
  consumerIsPull :: "bool option"
  parseMetadata :: "Msg \<Rightarrow> string option"
  publishSucceeds :: bool
  randomDraw :: nat

text \<open>
  \<^verbatim>\<open>Msg.Respond\<close> of the transport library publishes on the reply subject of the message;
  for a message without a reply subject it returns an error and publishes nothing.
  \<^verbatim>\<open>Msg.Term\<close> does the same with the body \<^verbatim>\<open>+TERM\<close>. The result is whether the call
  succeeded.
\<close>

definition Respond :: "natsEnv \<Rightarrow> Msg \<Rightarrow> string \<Rightarrow> event list \<times> bool" where
  "Respond env m body =
     (if Reply m = [] then ([], False)
      else ([Published (Reply m) body], publishSucceeds env))"

definition Term :: "natsEnv \<Rightarrow> Msg \<Rightarrow> event list \<times> bool" where
  "Term env m =
     (if Reply m = [] then ([], False)
      else ([Termed (Reply m)], publishSucceeds env))"

definition fatalIfNotPull :: "natsEnv \<Rightarrow> string \<Rightarrow> string \<Rightarrow> unit act" where
  "fatalIfNotPull env strm cons =
     ([Loaded strm cons],
      (case consumerIsPull env of
         None \<Rightarrow> Inl LoadFailed
       | Some p \<Rightarrow> if \<not> p then Inl NotPullConsumer else Inr ()))"

definition showNext :: "natsEnv \<Rightarrow> consumerCmd \<Rightarrow> Msg \<Rightarrow> event list" where
  "showNext env c msg =
     (if \<not> raw c
      then [Printed (MessageInfo
              (case parseMetadata env msg of None \<Rightarrow> Subject msg @ Reply msg | Some i \<Rightarrow> i))]
           @ (if length (Header msg) > 0 then [Printed MessageHeaders] else [])
           @ [Printed (MessageData (Data msg))]
      else [Printed (MessageData (Data msg))])"

text \<open>
  \<^verbatim>\<open>getNextMsgDirect\<close>. The subscription is bound and the request for the next message is
  published first; the check of the terminate and acknowledge flags follows; then the
  message is awaited, shown, and terminated or acknowledged. The command is returned,
  since the check may clear its \<^verbatim>\<open>ack\<close> field.
\<close>

definition getNextMsgDirect :: "natsEnv \<Rightarrow> consumerCmd \<Rightarrow> string \<Rightarrow> string \<Rightarrow> consumerCmd act" where
  "getNextMsgDirect env c strm cons =
     seq (emit [Subscribed]) (\<lambda>_.
     seq (if subscribeSucceeds env then ok () else fail SubscribeFailed) (\<lambda>_.
     seq (emit [NextRequested strm cons]) (\<lambda>_.
     seq (if requestSucceeds env then ok () else fail RequestFailed) (\<lambda>_.
     seq (if termFlag c
          then (let c = (if \<not> ackSetByUser c then c\<lparr>ack := False\<rparr> else c)
                in if ack c then fail ConflictingAction else ok c)
          else ok c) (\<lambda>c.
     seq (emit [Awaited]) (\<lambda>_.
     seq (case nextMsg env of
            None \<Rightarrow> seq (fatalIfNotPull env strm cons) (\<lambda>_. fail NoMessage)
          | Some msg \<Rightarrow> ok msg) (\<lambda>msg.
     seq (if HeaderGet (Header msg) ''Status'' = ''503''
          then fatalIfNotPull env strm cons else ok ()) (\<lambda>_.
     seq (emit (showNext env c msg)) (\<lambda>_.
     seq (if termFlag c
          then (case Term env msg of
                  (es, False) \<Rightarrow> (es, Inl TermFailed)
                | (es, True) \<Rightarrow> emit (es @ [Flushed, Printed TerminatedMessage]))
          else ok ()) (\<lambda>_.
     seq (if ack c
          then (let stime = (if ackWait c > 0 then int (randomDraw env) mod ackWait c else 0)
                in seq (emit (if stime > 0 then [Slept stime] else [])) (\<lambda>_.
                   case Respond env msg [] of
                     (es, False) \<Rightarrow> (es, Inl AckFailed)
                   | (es, True) \<Rightarrow>
                       emit (es @ [Flushed]
                               @ (if \<not> raw c then [Printed AcknowledgedMessage] else []))))
          else ok ()) (\<lambda>_. ok c)))))))))))"

text \<open>
  \<^verbatim>\<open>nextAction\<close>: up to \<^verbatim>\<open>pullCount\<close> fetches, one after the other, each meeting an
  environment of its own; the loop ends at the first failure.
\<close>

fun nextLoop :: "(nat \<Rightarrow> natsEnv) \<Rightarrow> nat \<Rightarrow> nat \<Rightarrow> consumerCmd \<Rightarrow> consumerCmd act" where
  "nextLoop envs i 0 c = ok c"
| "nextLoop envs i (Suc k) c =
     seq (getNextMsgDirect (envs i) c (stream c) (consumer c)) (nextLoop envs (Suc i) k)"

definition nextAction :: "(nat \<Rightarrow> natsEnv) \<Rightarrow> consumerCmd \<Rightarrow> consumerCmd act" where
  "nextAction envs c = nextLoop envs 0 (nat (pullCount c)) c"

text \<open>
  The message handler of \<^verbatim>\<open>subscribeConsumer\<close>. A message with an empty body and the
  status header \<^verbatim>\<open>100\<close> is answered and nothing else is done with it: on the subject the
  header \<^verbatim>\<open>Nats-Consumer-Stalled\<close> names when there is one, by \<^verbatim>\<open>Respond\<close> otherwise (whose
  error is dropped). Every other message is decoded, shown and, with \<^verbatim>\<open>ack\<close>,
  acknowledged. The handler keeps no count of messages: a delivered message is one that
  is shown.
\<close>

definition handler :: "natsEnv \<Rightarrow> consumerCmd \<Rightarrow> Msg \<Rightarrow> unit act" where
  "handler env c m =
     (if length (Data m) = 0 \<and> HeaderGet (Header m) ''Status'' = ''100''
      then (let stalled = HeaderGet (Header m) ''Nats-Consumer-Stalled''
            in if stalled \<noteq> [] then emit [Published stalled []]
               else emit (fst (Respond env m [])))
      else
        seq (if length (Reply m) > 0
             then (case parseMetadata env m of
                     None \<Rightarrow> fail MetadataError
                   | Some i \<Rightarrow> ok (Some i))
             else ok None) (\<lambda>msginfo.
        seq (if \<not> raw c
             then seq (emit [Printed (MessageInfo
                                (case msginfo of None \<Rightarrow> Subject m @ Reply m | Some i \<Rightarrow> i))]) (\<lambda>_.
                  if length (Header m) > 0
                       \<and> length (Data m) = 0 \<and> Reply m \<noteq> [] \<and> HeaderGet (Header m) ''Status'' = ''100''
                  then seq (emit (fst (Respond env m []))) (\<lambda>_. ok False)
                  else seq (emit ((if length (Header m) > 0 then [Printed MessageHeaders] else [])
                                    @ [Printed (MessageData (Data m))])) (\<lambda>_. ok True))
             else seq (emit [Printed (MessageData (Data m))]) (\<lambda>_. ok True)) (\<lambda>continue.
        if continue \<and> ack c
        then (case Respond env m [] of
                (es, False) \<Rightarrow> emit (es @ [Printed (AckFailure (Reply m))])
              | (es, True) \<Rightarrow> emit es)
        else ok ())))"

text \<open>The events of a trace that show something to the user.\<close>

definition shown :: "event list \<Rightarrow> event list" where
  "shown es = filter (\<lambda>e. case e of Printed _ \<Rightarrow> True | _ \<Rightarrow> False) es"

text \<open>The events of a trace that reach the network or the remote manager.\<close>

definition networkCalls :: "event list \<Rightarrow> event list" where
  "networkCalls es =
     filter (\<lambda>e. case e of Asked _ \<Rightarrow> False | Printed _ \<Rightarrow> False | Slept _ \<Rightarrow> False | _ \<Rightarrow> True) es"

section \<open>Theorems\<close>

text \<open>
  C4. The backoff policy generator: mode \<^verbatim>\<open>none\<close> always returns the empty schedule and no
  error; mode \<^verbatim>\<open>linear\<close> with zero steps, a zero minimum or a zero maximum always fails; a
  mode other than \<^verbatim>\<open>none\<close> and \<^verbatim>\<open>linear\<close> always fails. This holds whatever the library's
  generator for the linear schedule returns.
\<close>

theorem backoffPolicy_modes:
  "(backoffMode c = ''none'' \<longrightarrow> backoffPolicy x c = Inr [])
   \<and> (backoffMode c = ''linear'' \<and> (backoffSteps c = 0 \<or> backoffMin c = 0 \<or> backoffMax c = 0)
        \<longrightarrow> (\<exists>e. backoffPolicy x c = Inl e))
   \<and> (backoffMode c \<noteq> ''none'' \<and> backoffMode c \<noteq> ''linear''
        \<longrightarrow> (\<exists>e. backoffPolicy x c = Inl e))"
  by (simp add: backoffPolicy_def)

theorem backoffPolicy_modes_witness:
  "backoffPolicy stdExtern (noFlags\<lparr>backoffMode := ''none''\<rparr>) = Inr []
   \<and> (\<exists>e. backoffPolicy stdExtern (noFlags\<lparr>backoffMode := ''linear'', backoffSteps := 0\<rparr>) = Inl e)
   \<and> (\<exists>e. backoffPolicy stdExtern (noFlags\<lparr>backoffMode := ''exponential''\<rparr>) = Inl e)"
  using backoffPolicy_modes [of "noFlags\<lparr>backoffMode := ''none''\<rparr>" stdExtern]
    backoffPolicy_modes [of "noFlags\<lparr>backoffMode := ''linear'', backoffSteps := 0\<rparr>" stdExtern]
    backoffPolicy_modes [of "noFlags\<lparr>backoffMode := ''exponential''\<rparr>" stdExtern]
  by simp

end
